theory Spec2Isabelle
  imports Main
begin

section \<open>Types, as the type checker hands them to the space engine\<close>

text \<open>
  The engine asks four questions of a (canonical) type: is it \<open>Bool\<close>, is it a tuple, is it an
  enum, and is it equal to another type. Enum declarations live in the AST; an enum type
  is referred to by name and its elements are looked up in the context.
\<close>

datatype ty =
    BoolTy
  | TupleTy "ty list"
  | EnumTy string
  | NominalTy string

text \<open>
  What \<open>getTypeOfMember(..., eed->getArgumentInterfaceType())\<close> yields for an enum element:
  a null type, a tuple type, a parenthesised type, or some other type.
\<close>

datatype MemberType =
    NullType
  | TupleArgument "ty list"
  | ParenArgument ty
  | OtherArgument ty

record EnumElementDecl =
  Name :: string
  hasInterfaceType :: bool
  ArgumentType :: MemberType

text \<open>
  The parts of \<open>ASTContext\<close> (and of the declarations reachable from a type) the engine reads.
  The token spellings, the code placeholder and the type printer are declared outside
  this file's sources and are taken as parameters.
\<close>

record ASTContext =
  AllElements :: "string \<Rightarrow> EnumElementDecl list"
  DiagnosticsEditorMode :: bool
  printType :: "ty \<Rightarrow> string"
  kw_default :: string
  kw_case :: string
  CodePlaceholder :: string

definition isBool :: "ty \<Rightarrow> bool" where
  "isBool tp = (tp = BoolTy)"

section \<open>Spaces\<close>

datatype SpaceKind = Empty | Type | Constructor | Disjunct | BooleanConstant

text \<open>One constructor per constructor of the C++ class \<open>Space\<close>.\<close>

datatype Space =
    EmptySpace
  | TypeSpace ty
  | ConstructorSpace ty string "Space list"
  | DisjunctSpace "Space list"
  | BoolSpace bool

fun getKind :: "Space \<Rightarrow> SpaceKind" where
  "getKind EmptySpace = Empty"
| "getKind (TypeSpace T) = Type"
| "getKind (ConstructorSpace T H SP) = Constructor"
| "getKind (DisjunctSpace SP) = Disjunct"
| "getKind (BoolSpace C) = BooleanConstant"

definition isEmpty :: "Space \<Rightarrow> bool" where
  "isEmpty s = (getKind s = Empty)"

text \<open>
  Ways a call can end without a value: the model's fuel ran out, an assertion of the
  source failed, or an \<open>llvm_unreachable\<close> was reached.
\<close>

datatype failure = OutOfFuel | AssertionFailed | Unreachable

fun getType :: "Space \<Rightarrow> failure + ty" where
  "getType (TypeSpace T) = Inr T"
| "getType (ConstructorSpace T H SP) = Inr T"
| "getType s = Inl AssertionFailed"

fun getHead :: "Space \<Rightarrow> failure + string" where
  "getHead (ConstructorSpace T H SP) = Inr H"
| "getHead s = Inl AssertionFailed"

fun getSpaces :: "Space \<Rightarrow> failure + Space list" where
  "getSpaces (ConstructorSpace T H SP) = Inr SP"
| "getSpaces (DisjunctSpace SP) = Inr SP"
| "getSpaces s = Inl AssertionFailed"

subsection \<open>Sequencing of calls that may fail\<close>

definition bindR :: "failure + 'a \<Rightarrow> ('a \<Rightarrow> failure + 'b) \<Rightarrow> failure + 'b" where
  "bindR m f = (case m of Inl e \<Rightarrow> Inl e | Inr x \<Rightarrow> f x)"

text \<open>\<open>std::transform\<close> into a \<open>back_inserter\<close>: every element is visited, in order.\<close>

fun transform :: "('a \<Rightarrow> failure + 'b) \<Rightarrow> 'a list \<Rightarrow> failure + 'b list" where
  "transform f [] = Inr []"
| "transform f (x # xs) =
     bindR (f x) (\<lambda>y. bindR (transform f xs) (\<lambda>ys. Inr (y # ys)))"

text \<open>A \<open>for\<close> loop that returns \<open>false\<close> at the first element failing the test.\<close>

fun allOf :: "('a \<Rightarrow> failure + bool) \<Rightarrow> 'a list \<Rightarrow> failure + bool" where
  "allOf f [] = Inr True"
| "allOf f (x # xs) = bindR (f x) (\<lambda>b. if \<not> b then Inr False else allOf f xs)"

text \<open>A \<open>for\<close> loop that returns \<open>true\<close> at the first element passing the test.\<close>

fun anyOf :: "('a \<Rightarrow> failure + bool) \<Rightarrow> 'a list \<Rightarrow> failure + bool" where
  "anyOf f [] = Inr False"
| "anyOf f (x # xs) = bindR (f x) (\<lambda>b. if b then Inr True else anyOf f xs)"

text \<open>\<open>std::accumulate\<close> with a binary operation that may fail.\<close>

fun accumulate :: "'a list \<Rightarrow> 'b \<Rightarrow> ('b \<Rightarrow> 'a \<Rightarrow> failure + 'b) \<Rightarrow> failure + 'b" where
  "accumulate [] init f = Inr init"
| "accumulate (x # xs) init f = bindR (f init x) (\<lambda>acc. accumulate xs acc f)"

subsection \<open>Decomposition\<close>

definition canDecompose :: "ty \<Rightarrow> bool" where
  "canDecompose tp =
     ((case tp of TupleTy elts \<Rightarrow> True | _ \<Rightarrow> False) \<or> isBool tp
      \<or> (case tp of EnumTy E \<Rightarrow> True | _ \<Rightarrow> False))"

text \<open>The payload spaces of one enum element (\<open>constElemSpaces\<close>).\<close>

fun constElemSpaces :: "MemberType \<Rightarrow> Space list" where
  "constElemSpaces NullType = []"
| "constElemSpaces (TupleArgument elts) = map TypeSpace elts"
| "constElemSpaces (ParenArgument (TupleTy elts)) = map TypeSpace elts"
| "constElemSpaces (ParenArgument underlying) = [TypeSpace underlying]"
| "constElemSpaces (OtherArgument t) = []"

definition elementSpace :: "ty \<Rightarrow> EnumElementDecl \<Rightarrow> Space" where
  "elementSpace tp eed =
     (if \<not> hasInterfaceType eed then EmptySpace
      else ConstructorSpace tp (Name eed) (constElemSpaces (ArgumentType eed)))"

fun decompose :: "ASTContext \<Rightarrow> ty \<Rightarrow> failure + Space list" where
  "decompose ctx BoolTy = Inr [BoolSpace True, BoolSpace False]"
| "decompose ctx (EnumTy E) = Inr (map (elementSpace (EnumTy E)) (AllElements ctx E))"
| "decompose ctx (TupleTy elts) = Inr [ConstructorSpace (TupleTy elts) [] (map TypeSpace elts)]"
| "decompose ctx (NominalTy n) = Inl AssertionFailed"

text \<open>The lambda \<open>examineDecomp\<close> of \<open>intersect\<close> and \<open>minus\<close>.\<close>

fun examineDecomp :: "Space list \<Rightarrow> Space" where
  "examineDecomp [] = EmptySpace"
| "examineDecomp [s] = s"
| "examineDecomp decomposition = DisjunctSpace decomposition"

subsection \<open>Simplification\<close>

fun simplify :: "ASTContext \<Rightarrow> Space \<Rightarrow> Space" where
  "simplify ctx (ConstructorSpace T H SP) =
     (if SP = [] then ConstructorSpace T H SP
      else let simplifiedSpaces = map (simplify ctx) SP in
        if list_ex isEmpty simplifiedSpaces then EmptySpace
        else ConstructorSpace T H simplifiedSpaces)"
| "simplify ctx (TypeSpace T) =
     (if canDecompose T then
        (if decompose ctx T = Inr [] then EmptySpace else TypeSpace T)
      else TypeSpace T)"
| "simplify ctx (DisjunctSpace SP) =
     (let simplifiedSpaces = map (simplify ctx) SP in
      if length simplifiedSpaces = 1 then hd simplifiedSpaces
      else let compatifiedSpaces = filter (\<lambda>el. \<not> isEmpty el) simplifiedSpaces in
        if compatifiedSpaces = [] then EmptySpace
        else if length compatifiedSpaces = 1 then hd compatifiedSpaces
        else DisjunctSpace compatifiedSpaces)"
| "simplify ctx EmptySpace = EmptySpace"
| "simplify ctx (BoolSpace C) = BoolSpace C"

text \<open>The cases of \<open>simplify\<close>, one equation each.\<close>

lemma isEmpty_iff: "isEmpty s \<longleftrightarrow> s = EmptySpace"
  by (cases s) (simp_all add: isEmpty_def)

lemma simplify_Constructor_keep:
  "SP \<noteq> [] \<Longrightarrow> \<not> list_ex isEmpty (map (simplify ctx) SP) \<Longrightarrow>
   simplify ctx (ConstructorSpace T H SP) = ConstructorSpace T H (map (simplify ctx) SP)"
  by (simp add: Let_def)

lemma simplify_Constructor_drop:
  "SP \<noteq> [] \<Longrightarrow> list_ex isEmpty (map (simplify ctx) SP) \<Longrightarrow>
   simplify ctx (ConstructorSpace T H SP) = EmptySpace"
  by (simp add: Let_def)

lemma simplify_Disjunct_single:
  "simplify ctx (DisjunctSpace [s]) = simplify ctx s"
  by (simp add: Let_def)

lemma simplify_Disjunct_many:
  "length SP \<noteq> 1 \<Longrightarrow>
   simplify ctx (DisjunctSpace SP) =
     examineDecomp (filter (\<lambda>el. \<not> isEmpty el) (map (simplify ctx) SP))"
proof -
  assume n1: "length SP \<noteq> 1"
  let ?cs = "filter (\<lambda>el. \<not> isEmpty el) (map (simplify ctx) SP)"
  have "simplify ctx (DisjunctSpace SP) =
      (if ?cs = [] then EmptySpace else if length ?cs = 1 then hd ?cs else DisjunctSpace ?cs)"
    using n1 by (simp add: Let_def)
  also have "\<dots> = examineDecomp ?cs"
    by (cases ?cs rule: examineDecomp.cases) simp_all
  finally show ?thesis .
qed


lemma size_list_member: "x \<in> set xs \<Longrightarrow> f x \<le> size_list f xs"
  by (erule size_list_estimation') simp

lemma size_list_filter_le: "size_list f (filter P xs) \<le> size_list f xs"
  by (induction xs) simp_all

lemma size_simplify: "size (simplify ctx s) \<le> size s"
proof (induction s)
  case (ConstructorSpace T H SP)
  have "size_list size (map (simplify ctx) SP) \<le> size_list size SP"
    unfolding size_list_map using ConstructorSpace by (intro size_list_pointwise) simp
  then show ?case by (simp add: Let_def)
next
  case (DisjunctSpace SP)
  have le: "size_list size (map (simplify ctx) SP) \<le> size_list size SP"
    unfolding size_list_map using DisjunctSpace by (intro size_list_pointwise) simp
  show ?case
  proof (cases "length SP = 1")
    case True
    then obtain x where "SP = [x]" by (cases SP) auto
    with DisjunctSpace [of x] show ?thesis by (simp add: simplify_Disjunct_single)
  next
    case False
    let ?cs = "filter (\<lambda>el. \<not> isEmpty el) (map (simplify ctx) SP)"
    have cs: "size_list size ?cs \<le> size_list size SP"
      using size_list_filter_le [of size _ "map (simplify ctx) SP"] le by (rule order_trans)
    have "size (examineDecomp ?cs) \<le> Suc (size_list size ?cs)"
      by (cases ?cs rule: examineDecomp.cases) simp_all
    with cs False show ?thesis by (simp add: simplify_Disjunct_many del: simplify.simps)
  qed
qed simp_all

subsection \<open>The three operations of the algebra\<close>

text \<open>
  Decomposition of a type can be repeated without bound on recursive enums, so the three
  operations take a fuel argument that every nested call decrements; \<open>Inl OutOfFuel\<close>
  stands for a call that has not returned within that depth.
\<close>

fun isSubspace :: "ASTContext \<Rightarrow> nat \<Rightarrow> Space \<Rightarrow> Space \<Rightarrow> failure + bool" where
  "isSubspace ctx 0 this other = Inl OutOfFuel"
| "isSubspace ctx (Suc n) EmptySpace other = Inr True"
| "isSubspace ctx (Suc n) this EmptySpace = Inr False"
| "isSubspace ctx (Suc n) (DisjunctSpace SP) other =
     allOf (\<lambda>space. isSubspace ctx n space other) SP"
| "isSubspace ctx (Suc n) (TypeSpace T) (TypeSpace U) =
     (if T = U then Inr True
      else
        bindR (if canDecompose T then
                 bindR (decompose ctx T) (\<lambda>disjuncts.
                   isSubspace ctx n (DisjunctSpace disjuncts) (TypeSpace U))
               else Inr False)
          (\<lambda>covered.
             if covered then Inr True
             else if canDecompose U then
               bindR (decompose ctx U) (\<lambda>disjuncts.
                 isSubspace ctx n (TypeSpace T) (DisjunctSpace disjuncts))
             else Inr True))"
| "isSubspace ctx (Suc n) (TypeSpace T) (DisjunctSpace SP) =
     bindR (anyOf (\<lambda>dis. isSubspace ctx n (TypeSpace T) dis) SP) (\<lambda>found.
       if found then Inr True
       else if \<not> canDecompose T then Inr False
       else bindR (decompose ctx T) (\<lambda>disjuncts.
         isSubspace ctx n (DisjunctSpace disjuncts) (DisjunctSpace SP)))"
| "isSubspace ctx (Suc n) (TypeSpace T) (ConstructorSpace U H SP) =
     (if canDecompose T then
        bindR (decompose ctx T) (\<lambda>disjuncts.
          isSubspace ctx n (DisjunctSpace disjuncts) (ConstructorSpace U H SP))
      else Inr False)"
| "isSubspace ctx (Suc n) (ConstructorSpace T H SP) (TypeSpace U) = Inr True"
| "isSubspace ctx (Suc n) (BoolSpace C) (TypeSpace U) = Inr (isBool U)"
| "isSubspace ctx (Suc n) (ConstructorSpace T H SP) (ConstructorSpace U H' SP') =
     (if H \<noteq> H' then Inr False
      else if SP' = [] then Inr True
      else allOf (\<lambda>(i, j). isSubspace ctx n i j) (zip SP SP'))"
| "isSubspace ctx (Suc n) (ConstructorSpace T H SP) (DisjunctSpace SP') =
     anyOf (\<lambda>param. isSubspace ctx n (ConstructorSpace T H SP) param) SP'"
| "isSubspace ctx (Suc n) (BoolSpace C) (DisjunctSpace SP') =
     anyOf (\<lambda>param. isSubspace ctx n (BoolSpace C) param) SP'"
| "isSubspace ctx (Suc n) (BoolSpace C) (BoolSpace C') = Inr (C = C')"
| "isSubspace ctx (Suc n) (ConstructorSpace T H SP) (BoolSpace C') = Inr False"
| "isSubspace ctx (Suc n) (TypeSpace T) (BoolSpace C') = Inr False"
| "isSubspace ctx (Suc n) (BoolSpace C) (ConstructorSpace U H' SP') = Inl Unreachable"

text \<open>
  The parameter loop of \<open>intersect\<close> on two constructors: it returns the empty space at the
  first pair whose intersection simplifies to empty; \<open>f\<close> is the nested call.
\<close>

fun intersectParams ::
  "ASTContext \<Rightarrow> (Space \<Rightarrow> Space \<Rightarrow> failure + Space) \<Rightarrow> Space list \<Rightarrow> Space list \<Rightarrow> Space list
    \<Rightarrow> failure + Space" where
  "intersectParams ctx f (i # is) (j # js) paramSpace =
     bindR (f i j) (\<lambda>intersection.
       if isEmpty (simplify ctx intersection) then Inr EmptySpace
       else intersectParams ctx f is js (paramSpace @ [intersection]))"
| "intersectParams ctx f is js paramSpace = Inr (examineDecomp paramSpace)"

fun intersect :: "ASTContext \<Rightarrow> nat \<Rightarrow> Space \<Rightarrow> Space \<Rightarrow> failure + Space" where
  "intersect ctx 0 this other = Inl OutOfFuel"
| "intersect ctx (Suc n) EmptySpace other = Inr EmptySpace"
| "intersect ctx (Suc n) this EmptySpace = Inr EmptySpace"
| "intersect ctx (Suc n) this (DisjunctSpace SP') =
     bindR (transform (\<lambda>s. intersect ctx n this s) SP') (\<lambda>intersectedCases.
       Inr (examineDecomp (filter (\<lambda>s. \<not> isEmpty s) intersectedCases)))"
| "intersect ctx (Suc n) (DisjunctSpace SP) other =
     bindR (transform (\<lambda>s. intersect ctx n s other) SP) (\<lambda>intersectedCases.
       Inr (examineDecomp (filter (\<lambda>s. \<not> isEmpty s) intersectedCases)))"
| "intersect ctx (Suc n) (TypeSpace T) (TypeSpace U) =
     (if T = U then Inr (TypeSpace U)
      else if canDecompose T then
        bindR (decompose ctx T) (\<lambda>spaces.
          intersect ctx n (examineDecomp spaces) (TypeSpace U))
      else if canDecompose U then
        bindR (decompose ctx U) (\<lambda>spaces.
          intersect ctx n (TypeSpace T) (examineDecomp spaces))
      else Inr (TypeSpace U))"
| "intersect ctx (Suc n) (TypeSpace T) (ConstructorSpace U H' SP') =
     (if canDecompose T then
        bindR (decompose ctx T) (\<lambda>spaces.
          intersect ctx n (examineDecomp spaces) (ConstructorSpace U H' SP'))
      else Inr (ConstructorSpace U H' SP'))"
| "intersect ctx (Suc n) (ConstructorSpace T H SP) (TypeSpace U) =
     Inr (ConstructorSpace T H SP)"
| "intersect ctx (Suc n) (ConstructorSpace T H SP) (ConstructorSpace U H' SP') =
     (if H \<noteq> H' then Inr EmptySpace
      else if SP' = [] then Inr (ConstructorSpace T H SP)
      else intersectParams ctx (\<lambda>i j. intersect ctx n i j) SP SP' [])"
| "intersect ctx (Suc n) (BoolSpace C) (BoolSpace C') =
     Inr (if C = C' then BoolSpace C else EmptySpace)"
| "intersect ctx (Suc n) (BoolSpace C) (TypeSpace U) =
     (if isBool U then
        Inr (if getKind (BoolSpace C) = BooleanConstant then BoolSpace C else EmptySpace)
      else if canDecompose U then
        bindR (decompose ctx U) (\<lambda>spaces.
          intersect ctx n (BoolSpace C) (examineDecomp spaces))
      else Inr EmptySpace)"
| "intersect ctx (Suc n) (BoolSpace C) (ConstructorSpace U H' SP') = Inr EmptySpace"
| "intersect ctx (Suc n) (TypeSpace T) (BoolSpace C') =
     (if canDecompose T then
        bindR (decompose ctx T) (\<lambda>spaces.
          intersect ctx n (examineDecomp spaces) (BoolSpace C'))
      else Inr EmptySpace)"
| "intersect ctx (Suc n) (ConstructorSpace T H SP) (BoolSpace C') = Inr EmptySpace"

text \<open>
  \<open>Space::minus\<close> is \<open>minusSpace\<close> below, next to its parameter loop on two constructors. \<open>this\<close> is the left constructor
  (type \<open>T\<close>, head \<open>H\<close>, payload \<open>SP\<close>), \<open>idx\<close> the loop index, \<open>foundBad\<close> and \<open>constrSpaces\<close>
  the loop's variables; \<open>fi\<close>, \<open>fs\<close> and \<open>fm\<close> are the nested calls of \<open>intersect\<close>,
  \<open>isSubspace\<close> and \<open>minus\<close>.
\<close>

fun minusParams ::
  "ASTContext \<Rightarrow> (Space \<Rightarrow> Space \<Rightarrow> failure + Space) \<Rightarrow> (Space \<Rightarrow> Space \<Rightarrow> failure + bool)
    \<Rightarrow> (Space \<Rightarrow> Space \<Rightarrow> failure + Space) \<Rightarrow> ty \<Rightarrow> string \<Rightarrow> Space list
    \<Rightarrow> nat \<Rightarrow> bool \<Rightarrow> Space list \<Rightarrow> Space list \<Rightarrow> Space list \<Rightarrow> failure + Space" where
  "minusParams ctx fi fs fm T H SP idx foundBad constrSpaces (s1 # is) (s2 # js) =
     bindR (fi s1 s2) (\<lambda>intersection.
       if isEmpty (simplify ctx intersection) then Inr (ConstructorSpace T H SP)
       else bindR (fs s1 s2) (\<lambda>sub.
         bindR (fm s1 s2) (\<lambda>difference.
           minusParams ctx fi fs fm T H SP (Suc idx) (foundBad \<or> \<not> sub)
             (constrSpaces @ [ConstructorSpace T H (SP[idx := difference])]) is js)))"
| "minusParams ctx fi fs fm T H SP idx foundBad constrSpaces is js =
     (if foundBad then Inr (examineDecomp constrSpaces) else Inr EmptySpace)"

fun minusSpace :: "ASTContext \<Rightarrow> nat \<Rightarrow> Space \<Rightarrow> Space \<Rightarrow> failure + Space" where
  "minusSpace ctx 0 this other = Inl OutOfFuel"
| "minusSpace ctx (Suc n) EmptySpace other = Inr EmptySpace"
| "minusSpace ctx (Suc n) this EmptySpace = Inr this"
| "minusSpace ctx (Suc n) (TypeSpace T) (TypeSpace U) =
     (if T = U then Inr EmptySpace
      else if canDecompose T then
        bindR (decompose ctx T) (\<lambda>spaces.
          intersect ctx n (examineDecomp spaces) (TypeSpace U))
      else if canDecompose U then
        bindR (decompose ctx U) (\<lambda>spaces.
          intersect ctx n (TypeSpace T) (examineDecomp spaces))
      else Inr EmptySpace)"
| "minusSpace ctx (Suc n) (TypeSpace T) (ConstructorSpace U H' SP') =
     (if canDecompose T then
        bindR (decompose ctx T) (\<lambda>spaces.
          minusSpace ctx n (examineDecomp spaces) (ConstructorSpace U H' SP'))
      else Inr (TypeSpace T))"
| "minusSpace ctx (Suc n) this (DisjunctSpace SP') =
     accumulate SP' this (\<lambda>left right. minusSpace ctx n left right)"
| "minusSpace ctx (Suc n) (DisjunctSpace SP) other =
     bindR (transform (\<lambda>first. minusSpace ctx n first other) SP) (\<lambda>smallSpaces.
       Inr (examineDecomp smallSpaces))"
| "minusSpace ctx (Suc n) (ConstructorSpace T H SP) (TypeSpace U) = Inr EmptySpace"
| "minusSpace ctx (Suc n) (ConstructorSpace T H SP) (ConstructorSpace U H' SP') =
     (if H \<noteq> H' then Inr (ConstructorSpace T H SP)
      else if SP' = [] then Inr EmptySpace
      else minusParams ctx (\<lambda>s1 s2. intersect ctx n s1 s2) (\<lambda>s1 s2. isSubspace ctx n s1 s2)
             (\<lambda>s1 s2. minusSpace ctx n s1 s2) T H SP 0 False [] SP SP')"
| "minusSpace ctx (Suc n) (BoolSpace C) (BoolSpace C') =
     (if C = C' then Inr EmptySpace else Inr (BoolSpace C))"
| "minusSpace ctx (Suc n) (BoolSpace C) (TypeSpace U) =
     (if isBool U then
        Inr (if getKind (BoolSpace C) = BooleanConstant then EmptySpace else BoolSpace C)
      else if canDecompose U then
        bindR (decompose ctx U) (\<lambda>spaces.
          minusSpace ctx n (BoolSpace C) (examineDecomp spaces))
      else Inr (BoolSpace C))"
| "minusSpace ctx (Suc n) (BoolSpace C) (ConstructorSpace U H' SP') = Inr (BoolSpace C)"
| "minusSpace ctx (Suc n) (TypeSpace T) (BoolSpace C') =
     (if canDecompose T then
        bindR (decompose ctx T) (\<lambda>spaces.
          minusSpace ctx n (examineDecomp spaces) (BoolSpace C'))
      else Inr (TypeSpace T))"
| "minusSpace ctx (Suc n) (ConstructorSpace T H SP) (BoolSpace C') = Inr EmptySpace"

text \<open>
  The specification's "space over the subject type" \<open>T\<close> (not a function of the source):
  the empty space, the type's own space, a constructor space of the type, a boolean
  constant when the type is \<open>Bool\<close>, or a disjunct of such spaces.
\<close>

fun overType :: "ty \<Rightarrow> Space \<Rightarrow> bool" where
  "overType T EmptySpace = True"
| "overType T (TypeSpace U) = (U = T)"
| "overType T (ConstructorSpace U H SP) = (U = T)"
| "overType T (DisjunctSpace SP) = list_all (overType T) SP"
| "overType T (BoolSpace C) = isBool T"

section \<open>Flattening\<close>

text \<open>
  The inner loop of \<open>flatten\<close> on a constructor: every flattened parameter \<open>space\<close> is
  rebuilt into a row. \<open>getSpaces\<close>, \<open>getType\<close> and \<open>getHead\<close> assert the kind of \<open>space\<close>, and
  \<open>row[i]\<close> asserts that \<open>i\<close> is in range.
\<close>

fun rebuildRows :: "Space list \<Rightarrow> nat \<Rightarrow> Space list \<Rightarrow> failure + Space list" where
  "rebuildRows [] i flats = Inr flats"
| "rebuildRows (space # flattenedParams) i flats =
     bindR (getSpaces space) (\<lambda>row.
       if \<not> i < length row then Inl AssertionFailed
       else bindR (getType space) (\<lambda>T. bindR (getHead space) (\<lambda>H.
         rebuildRows flattenedParams i (flats @ [ConstructorSpace T H (row[i := space])]))))"

text \<open>
  \<open>flatten space flats\<close> returns the list \<open>flats\<close> as the call leaves it. \<open>flattenParams\<close> is
  the loop over the parameters of a constructor (with its counter \<open>i\<close>) and \<open>flattenSpaces\<close>
  the loop over the members of a disjunct.
\<close>

fun flatten :: "Space \<Rightarrow> Space list \<Rightarrow> failure + Space list"
  and flattenParams :: "Space list \<Rightarrow> nat \<Rightarrow> Space list \<Rightarrow> failure + Space list"
  and flattenSpaces :: "Space list \<Rightarrow> Space list \<Rightarrow> failure + Space list" where
  "flatten (ConstructorSpace T H SP) flats = flattenParams SP 0 flats"
| "flatten (DisjunctSpace SP) flats = flattenSpaces SP flats"
| "flatten EmptySpace flats = Inr (flats @ [EmptySpace])"
| "flatten (TypeSpace T) flats = Inr (flats @ [TypeSpace T])"
| "flatten (BoolSpace C) flats = Inr (flats @ [BoolSpace C])"
| "flattenParams [] i flats = Inr flats"
| "flattenParams (param # params) i flats =
     (if getKind param \<noteq> Constructor \<or> getKind param \<noteq> Disjunct
         \<or> getKind param \<noteq> BooleanConstant
      then flattenParams params i flats
      else bindR (flatten param []) (\<lambda>flattenedParams.
             bindR (rebuildRows flattenedParams i flats) (\<lambda>flats'.
               flattenParams params (Suc i) flats')))"
| "flattenSpaces [] flats = Inr flats"
| "flattenSpaces (s # SP) flats = bindR (flatten s flats) (\<lambda>flats'. flattenSpaces SP flats')"

section \<open>Patterns and their projection\<close>

datatype Pattern =
    AnyPattern ty
  | NamedPattern ty
  | BoolPattern bool
  | TypedPattern Pattern
  | IsPattern
  | ExprPattern
  | VarPattern Pattern
  | ParenPattern Pattern
  | OptionalSomePattern ty Pattern
  | EnumElementPattern ty string "Pattern option"
  | TuplePattern ty "Pattern list"

text \<open>
  \<open>Pattern::getSemanticsProvidingPattern\<close> is declared with the pattern AST, outside the
  sources at hand: it looks through parentheses, type annotations and \<open>var\<close>/\<open>let\<close>.
\<close>

fun getSemanticsProvidingPattern :: "Pattern \<Rightarrow> Pattern" where
  "getSemanticsProvidingPattern (ParenPattern p) = getSemanticsProvidingPattern p"
| "getSemanticsProvidingPattern (TypedPattern p) = getSemanticsProvidingPattern p"
| "getSemanticsProvidingPattern (VarPattern p) = getSemanticsProvidingPattern p"
| "getSemanticsProvidingPattern p = p"

lemma size_getSemanticsProvidingPattern:
  "size (getSemanticsProvidingPattern p) \<le> size p"
  by (induction p rule: getSemanticsProvidingPattern.induct) simp_all

datatype PatternKind =
  Any | Named | Bool | Typed | Is | Expr | Var | Paren | OptionalSome | EnumElement | Tuple

fun getPatternKind :: "Pattern \<Rightarrow> PatternKind" where
  "getPatternKind (AnyPattern T) = Any"
| "getPatternKind (NamedPattern T) = Named"
| "getPatternKind (BoolPattern v) = Bool"
| "getPatternKind (TypedPattern p) = Typed"
| "getPatternKind IsPattern = Is"
| "getPatternKind ExprPattern = Expr"
| "getPatternKind (VarPattern p) = Var"
| "getPatternKind (ParenPattern p) = Paren"
| "getPatternKind (OptionalSomePattern T p) = OptionalSome"
| "getPatternKind (EnumElementPattern T name sub) = EnumElement"
| "getPatternKind (TuplePattern T elts) = Tuple"

text \<open>
  \<open>SP->getType()->getAs<TupleType>()\<close> for a named, wildcard or tuple pattern: the element
  types when the pattern's type is a tuple type.
\<close>

fun getAsTupleType :: "Pattern \<Rightarrow> ty list option" where
  "getAsTupleType (NamedPattern (TupleTy tys)) = Some tys"
| "getAsTupleType (AnyPattern (TupleTy tys)) = Some tys"
| "getAsTupleType (TuplePattern (TupleTy tys) elts) = Some tys"
| "getAsTupleType p = None"

function (sequential) projectPattern :: "Pattern \<Rightarrow> Space" where
  "projectPattern (AnyPattern T) = TypeSpace T"
| "projectPattern (NamedPattern T) = TypeSpace T"
| "projectPattern (BoolPattern v) = BoolSpace v"
| "projectPattern (TypedPattern p) = EmptySpace"
| "projectPattern IsPattern = EmptySpace"
| "projectPattern ExprPattern = EmptySpace"
| "projectPattern (VarPattern p) = projectPattern p"
| "projectPattern (ParenPattern p) = projectPattern p"
| "projectPattern (OptionalSomePattern T p) = ConstructorSpace T ''some'' [projectPattern p]"
| "projectPattern (EnumElementPattern T name None) = ConstructorSpace T name []"
| "projectPattern (EnumElementPattern T name (Some (TuplePattern TT elts))) =
     ConstructorSpace T name (map projectPattern elts)"
| "projectPattern (EnumElementPattern T name (Some (ParenPattern p))) =
     (let SP = getSemanticsProvidingPattern (ParenPattern p) in
      if getPatternKind SP = Named \<or> getPatternKind SP = Any \<or> getPatternKind SP = Tuple then
        (case getAsTupleType SP of
           Some tys \<Rightarrow> ConstructorSpace T name (map TypeSpace tys)
         | None \<Rightarrow> ConstructorSpace T name [projectPattern SP])
      else ConstructorSpace T name [projectPattern SP])"
| "projectPattern (EnumElementPattern T name (Some SP)) = projectPattern SP"
| "projectPattern (TuplePattern T elts) = ConstructorSpace T [] (map projectPattern elts)"
  by pat_completeness auto
termination
proof (relation "measure size", goal_cases)
  case 1
  show ?case by simp
next
  case (6 T name p SP)
  have "size (getSemanticsProvidingPattern (ParenPattern p)) \<le> size (ParenPattern p)"
    by (rule size_getSemanticsProvidingPattern)
  with 6 show ?case by simp
next
  case (7 T name p SP)
  have "size (getSemanticsProvidingPattern (ParenPattern p)) \<le> size (ParenPattern p)"
    by (rule size_getSemanticsProvidingPattern)
  with 7 show ?case by simp
qed (auto simp: less_Suc_eq_le intro: le_SucI size_list_member)

section \<open>Rendering\<close>

fun joinWith :: "string \<Rightarrow> string list \<Rightarrow> string" where
  "joinWith sep [] = []"
| "joinWith sep [x] = x"
| "joinWith sep (x # xs) = x @ sep @ joinWith sep xs"

function showSpace :: "ASTContext \<Rightarrow> Space \<Rightarrow> bool \<Rightarrow> string" where
  "showSpace ctx EmptySpace normalized = ''[EMPTY]''"
| "showSpace ctx (DisjunctSpace SP) normalized =
     (if normalized then showSpace ctx (simplify ctx (DisjunctSpace SP)) False
      else ''DISJOIN(''
        @ concat (map (\<lambda>sp. [CHR 0x0A] @ showSpace ctx sp normalized @ '' |'') SP)
        @ '')'')"
| "showSpace ctx (BoolSpace C) normalized = (if C then ''true'' else ''false'')"
| "showSpace ctx (ConstructorSpace T H SP) normalized =
     (if H \<noteq> [] then ''.'' @ H else [])
     @ (if SP = [] then []
        else ''(''
          @ joinWith '', ''
              (map (\<lambda>param.
                 if normalized then showSpace ctx (simplify ctx param) normalized
                 else showSpace ctx param True) SP)
          @ '')'')"
| "showSpace ctx (TypeSpace T) normalized =
     (if \<not> normalized then printType ctx T else []) @ ''_''"
  by pat_completeness auto
termination
proof (relation "measure (\<lambda>(ctx, s, normalized). 2 * size s + (if normalized then 1 else 0))",
    goal_cases)
  case 1
  show ?case by simp
next
  case (2 ctx SP normalized)
  have "size (simplify ctx (DisjunctSpace SP)) \<le> size (DisjunctSpace SP)"
    by (rule size_simplify)
  with 2 show ?case by (simp del: simplify.simps)
next
  case (3 ctx SP normalized x)
  then have "size x \<le> size_list size SP" by (simp add: size_list_member)
  with 3 show ?case by simp
next
  case (4 ctx T H SP normalized x)
  have "size (simplify ctx x) \<le> size x" by (rule size_simplify)
  moreover have "size x \<le> size_list size SP" using 4 by (simp add: size_list_member)
  ultimately show ?case using 4 by simp
next
  case (5 ctx T H SP normalized x)
  then have "size x \<le> size_list size SP" by (simp add: size_list_member)
  with 5 show ?case by simp
qed


section \<open>The exhaustiveness check of a switch statement\<close>

type_synonym Expr = string
type_synonym SourceLoc = nat

record CaseLabelItem =
  CasePattern :: Pattern
  GuardExpr :: "Expr option"
  isDefault :: bool

record SwitchStmt =
  Cases :: "CaseLabelItem list list"
  SubjectType :: ty
  StartLoc :: SourceLoc
  EndLoc :: SourceLoc

datatype DiagID =
    empty_switch_stmt
  | non_exhaustive_switch bool bool string
  | missing_particular_case string

record Diagnostic =
  Loc :: SourceLoc
  ID :: DiagID
  fixItInsert :: "(SourceLoc \<times> string) option"

text \<open>
  The flattened forms of one uncovered space, as both loops of \<open>diagnoseMissingCases\<close>
  compute them: the space itself when \<open>flatten\<close> yields nothing.
\<close>

definition flatsOf :: "Space \<Rightarrow> failure + Space list" where
  "flatsOf uncoveredSpace =
     bindR (flatten uncoveredSpace []) (\<lambda>flats.
       Inr (if flats = [] then [uncoveredSpace] else flats))"

definition diagnoseMissingCases ::
  "ASTContext \<Rightarrow> SwitchStmt \<Rightarrow> bool \<Rightarrow> Space \<Rightarrow> failure + Diagnostic list" where
  "diagnoseMissingCases ctx Switch JustNeedsDefault uncovered =
     (let Empty' = (Cases Switch = []);
          Placeholder = CodePlaceholder ctx;
          InEditor = DiagnosticsEditorMode ctx in
      if JustNeedsDefault then
        (let Buffer = kw_default ctx @ '': '' @ Placeholder @ [CHR 0x0A] in
         if Empty' then
           Inr [\<lparr>Loc = StartLoc Switch, ID = empty_switch_stmt,
                 fixItInsert = Some (EndLoc Switch, Buffer)\<rparr>]
         else
           Inr [\<lparr>Loc = StartLoc Switch,
                 ID = non_exhaustive_switch InEditor (isEmpty uncovered) [],
                 fixItInsert = Some (EndLoc Switch, Buffer)\<rparr>])
      else if isEmpty uncovered then Inr []
      else if InEditor then
        bindR (getSpaces uncovered) (\<lambda>uncoveredSpaces.
          bindR (transform flatsOf uncoveredSpaces) (\<lambda>flatss.
            let Buffer = concat (map (\<lambda>FlatSpace.
                  kw_case ctx @ '' '' @ showSpace ctx FlatSpace True @ '': '' @ Placeholder
                    @ [CHR 0x0A]) (concat flatss)) in
            Inr [\<lparr>Loc = StartLoc Switch, ID = non_exhaustive_switch InEditor False Buffer,
                  fixItInsert = Some (EndLoc Switch, Buffer)\<rparr>]))
      else
        bindR (getSpaces uncovered) (\<lambda>uncoveredSpaces.
          bindR (transform flatsOf uncoveredSpaces) (\<lambda>flatss.
            Inr (\<lparr>Loc = StartLoc Switch, ID = non_exhaustive_switch InEditor False [],
                   fixItInsert = None\<rparr>
                 # map (\<lambda>FlatSpace.
                     \<lparr>Loc = StartLoc Switch,
                      ID = missing_particular_case (showSpace ctx FlatSpace True),
                      fixItInsert = None\<rparr>) (concat flatss)))))"

text \<open>
  The two nested loops that collect the case spaces. \<open>None\<close> stands for the \<open>return\<close> taken
  at a default item.
\<close>

fun caseLabelItemsLoop :: "CaseLabelItem list \<Rightarrow> Space list \<Rightarrow> Space list option" where
  "caseLabelItemsLoop [] spaces = Some spaces"
| "caseLabelItemsLoop (caseItem # caseItems) spaces =
     (if GuardExpr caseItem \<noteq> None then caseLabelItemsLoop caseItems spaces
      else let projection = projectPattern (CasePattern caseItem) in
        if isDefault caseItem then None
        else caseLabelItemsLoop caseItems (spaces @ [projection]))"

fun casesLoop :: "CaseLabelItem list list \<Rightarrow> Space list \<Rightarrow> Space list option" where
  "casesLoop [] spaces = Some spaces"
| "casesLoop (caseBlock # caseBlocks) spaces =
     (case caseLabelItemsLoop caseBlock spaces of
        None \<Rightarrow> None
      | Some spaces' \<Rightarrow> casesLoop caseBlocks spaces')"

definition checkExhaustiveness ::
  "ASTContext \<Rightarrow> nat \<Rightarrow> SwitchStmt \<Rightarrow> bool \<Rightarrow> failure + Diagnostic list" where
  "checkExhaustiveness ctx fuel Switch limitedChecking =
     (if limitedChecking then
        (if Cases Switch = [] then diagnoseMissingCases ctx Switch True EmptySpace
         else Inr [])
      else
        (case casesLoop (Cases Switch) [] of
           None \<Rightarrow> Inr []
         | Some spaces \<Rightarrow>
             bindR (minusSpace ctx fuel (TypeSpace (SubjectType Switch)) (DisjunctSpace spaces))
               (\<lambda>difference.
                  let uncovered = simplify ctx difference in
                  if isEmpty uncovered then Inr []
                  else if getKind uncovered = Type then
                    bindR (getType uncovered) (\<lambda>T.
                      if canDecompose T then
                        bindR (decompose ctx T) (\<lambda>spaces.
                          diagnoseMissingCases ctx Switch False (DisjunctSpace spaces))
                      else diagnoseMissingCases ctx Switch True EmptySpace)
                  else
                    diagnoseMissingCases ctx Switch False
                      (if getKind uncovered \<noteq> Disjunct then DisjunctSpace [uncovered]
                       else uncovered))))"

section \<open>Example declarations\<close>

text \<open>
  A context with the enums \<open>Maybe<Bool> { none, some(Bool) }\<close> and \<open>E { a, b, c }\<close>, and a
  switch over \<open>Bool\<close> with a guarded case and a default case.
\<close>

definition exampleContext :: ASTContext where
  "exampleContext =
     \<lparr>AllElements = (\<lambda>E.
        if E = ''Maybe<Bool>'' then
          [\<lparr>Name = ''none'', hasInterfaceType = True, ArgumentType = NullType\<rparr>,
           \<lparr>Name = ''some'', hasInterfaceType = True, ArgumentType = ParenArgument BoolTy\<rparr>]
        else if E = ''E'' then
          [\<lparr>Name = ''a'', hasInterfaceType = True, ArgumentType = NullType\<rparr>,
           \<lparr>Name = ''b'', hasInterfaceType = True, ArgumentType = NullType\<rparr>,
           \<lparr>Name = ''c'', hasInterfaceType = True, ArgumentType = NullType\<rparr>]
        else []),
      DiagnosticsEditorMode = False,
      printType = (\<lambda>t. ''T''),
      kw_default = ''default'',
      kw_case = ''case'',
      CodePlaceholder = ''<#code#>''\<rparr>"

definition exampleSwitch :: SwitchStmt where
  "exampleSwitch =
     \<lparr>Cases =
        [[\<lparr>CasePattern = BoolPattern True, GuardExpr = Some ''x > 0'', isDefault = False\<rparr>],
         [\<lparr>CasePattern = AnyPattern BoolTy, GuardExpr = None, isDefault = True\<rparr>]],
      SubjectType = BoolTy, StartLoc = 1, EndLoc = 9\<rparr>"

section \<open>Properties of the space algebra\<close>

subsection \<open>Simplification\<close>

lemma simplify_map_fixed:
  assumes "\<And>x. x \<in> set xs \<Longrightarrow> simplify ctx (simplify ctx x) = simplify ctx x"
  shows "map (simplify ctx) (map (simplify ctx) xs) = map (simplify ctx) xs"
  using assms by (induction xs) simp_all

lemma simplify_filter_fixed:
  assumes "\<And>x. x \<in> set xs \<Longrightarrow> simplify ctx (simplify ctx x) = simplify ctx x"
  shows "map (simplify ctx) (filter P (map (simplify ctx) xs)) = filter P (map (simplify ctx) xs)"
  using assms by (induction xs) simp_all

lemma examineDecomp_cases:
  obtains "ss = []" "examineDecomp ss = EmptySpace"
  | s where "ss = [s]" "examineDecomp ss = s"
  | "length ss \<noteq> 1" "ss \<noteq> []" "examineDecomp ss = DisjunctSpace ss"
  by (cases ss rule: examineDecomp.cases) simp_all

lemma simplify_fixed: "simplify ctx (simplify ctx s) = simplify ctx s"
proof (induction s)
  case EmptySpace
  show ?case by simp
next
  case (TypeSpace T)
  show ?case by simp
next
  case (BoolSpace C)
  show ?case by simp
next
  case (ConstructorSpace T H SP)
  let ?ss = "map (simplify ctx) SP"
  have m: "map (simplify ctx) ?ss = ?ss"
    using ConstructorSpace by (rule simplify_map_fixed)
  consider "SP = []" | "SP \<noteq> []" "list_ex isEmpty ?ss" | "SP \<noteq> []" "\<not> list_ex isEmpty ?ss"
    by blast
  then show ?case
  proof cases
    case 1
    then show ?thesis by simp
  next
    case 2
    then have "simplify ctx (ConstructorSpace T H SP) = EmptySpace"
      by (rule simplify_Constructor_drop)
    then show ?thesis by simp
  next
    case 3
    then have 1: "simplify ctx (ConstructorSpace T H SP) = ConstructorSpace T H ?ss"
      by (rule simplify_Constructor_keep)
    have "?ss \<noteq> []" using 3(1) by simp
    moreover have "\<not> list_ex isEmpty (map (simplify ctx) ?ss)"
      unfolding m by (rule 3(2))
    ultimately have "simplify ctx (ConstructorSpace T H ?ss)
        = ConstructorSpace T H (map (simplify ctx) ?ss)"
      by (rule simplify_Constructor_keep)
    then show ?thesis by (simp only: 1 m)
  qed
next
  case (DisjunctSpace SP)
  let ?cs = "filter (\<lambda>el. \<not> isEmpty el) (map (simplify ctx) SP)"
  have fixed: "simplify ctx y = y" if "y \<in> set ?cs" for y
  proof -
    from that obtain x where "x \<in> set SP" "y = simplify ctx x" by auto
    then show ?thesis using DisjunctSpace by simp
  qed
  show ?case
  proof (cases "length SP = 1")
    case True
    then obtain x where x: "SP = [x]" by (cases SP) auto
    then have "simplify ctx (DisjunctSpace SP) = simplify ctx x"
      by (simp only: simplify_Disjunct_single)
    moreover have "simplify ctx (simplify ctx x) = simplify ctx x"
      using DisjunctSpace x by simp
    ultimately show ?thesis by simp
  next
    case False
    then have 1: "simplify ctx (DisjunctSpace SP) = examineDecomp ?cs"
      by (rule simplify_Disjunct_many)
    show ?thesis
    proof (cases ?cs rule: examineDecomp_cases)
      case 1
      then show ?thesis using \<open>simplify ctx (DisjunctSpace SP) = examineDecomp ?cs\<close> by simp
    next
      case (2 s)
      then have "s \<in> set ?cs" by simp
      then have "simplify ctx s = s" by (rule fixed)
      then show ?thesis
        using 2 \<open>simplify ctx (DisjunctSpace SP) = examineDecomp ?cs\<close> by simp
    next
      case 3
      have mc: "map (simplify ctx) ?cs = ?cs"
        by (rule map_idI) (rule fixed)
      have fc: "filter (\<lambda>el. \<not> isEmpty el) ?cs = ?cs" by simp
      have "simplify ctx (DisjunctSpace ?cs)
          = examineDecomp (filter (\<lambda>el. \<not> isEmpty el) (map (simplify ctx) ?cs))"
        using 3(1) by (rule simplify_Disjunct_many)
      also have "\<dots> = examineDecomp ?cs" by (simp only: mc fc)
      finally show ?thesis
        using 3 \<open>simplify ctx (DisjunctSpace SP) = examineDecomp ?cs\<close> by simp
    qed
  qed
qed


text \<open>
  Claim C7. Simplifying an already simplified space changes nothing:
  \<open>simplify (simplify s) = simplify s\<close> for every space \<open>s\<close>.
\<close>

theorem simplify_idempotent: "simplify ctx (simplify ctx s) = simplify ctx s"
  by (rule simplify_fixed)

subsection \<open>Decomposition\<close>

text \<open>
  Every caller tests \<open>canDecompose\<close> before it calls \<open>decompose\<close>; the assertion of
  \<open>decompose\<close> then holds and a list comes back.
\<close>

lemma decompose_succeeds: "canDecompose tp \<longleftrightarrow> (\<exists>arr. decompose ctx tp = Inr arr)"
  by (cases tp) (simp_all add: canDecompose_def isBool_def)

subsection \<open>Decomposition of enums\<close>

text \<open>
  Claim C9. Decomposing an enum type succeeds and yields one space per declared element, in
  declaration order: the empty space for an element without interface type, and the
  element's constructor space for every other element.
\<close>

theorem decompose_enum_missing_interface_type:
  "\<exists>arr. decompose ctx (EnumTy E) = Inr arr
     \<and> length arr = length (AllElements ctx E)
     \<and> list_all2 (\<lambda>eed space.
          space = (if hasInterfaceType eed
                   then ConstructorSpace (EnumTy E) (Name eed) (constElemSpaces (ArgumentType eed))
                   else EmptySpace))
         (AllElements ctx E) arr"
  by (simp add: list_all2_conv_all_nth elementSpace_def)

subsection \<open>Subspace test\<close>

text \<open>
  Claim C10. A type space is never a subspace of a boolean constant: the call returns
  \<open>false\<close> at once, for every type (the boolean type included) and without any nested call,
  so no decomposition takes place.
\<close>

theorem isSubspace_Type_BooleanConstant:
  "isSubspace ctx (Suc n) (TypeSpace T) (BoolSpace b) = Inr False"
  by simp

text \<open>
  The pair (boolean constant, constructor) has no case in \<open>isSubspace\<close>: the call ends in
  the \<open>llvm_unreachable\<close> of the default branch.
\<close>

lemma isSubspace_BooleanConstant_Constructor:
  "isSubspace ctx (Suc n) (BoolSpace C) (ConstructorSpace U H SP) = Inl Unreachable"
  by simp

subsection \<open>Subtraction\<close>

text \<open>
  The Type/Type case of \<open>minus\<close> as the code has it: equal types give the empty space; a
  decomposable left type gives the intersection of its decomposition with the right
  space; otherwise a decomposable right type gives the intersection of the left space with
  its decomposition; otherwise the result is empty.
\<close>

lemma minusSpace_Type_Type:
  "minusSpace ctx (Suc n) (TypeSpace T) (TypeSpace U) =
     (if T = U then Inr EmptySpace
      else if canDecompose T then
        bindR (decompose ctx T) (\<lambda>spaces. intersect ctx n (examineDecomp spaces) (TypeSpace U))
      else if canDecompose U then
        bindR (decompose ctx U) (\<lambda>spaces. intersect ctx n (TypeSpace T) (examineDecomp spaces))
      else Inr EmptySpace)"
  by simp

text \<open>
  Claim C1 (the code departs from it). Subtracting the space of an unrelated,
  non-decomposable type from the space of \<open>Bool\<close> returns the empty space: the Type/Type
  case of \<open>minus\<close> hands the decomposition of \<open>Bool\<close> to \<open>intersect\<close>. Subtracting the same
  type space from the decomposition itself leaves both boolean constants uncovered.
\<close>

theorem minus_Type_Type_intersects:
  "minusSpace ctx (Suc (Suc (Suc n))) (TypeSpace BoolTy) (TypeSpace (NominalTy ''Int''))
     = Inr EmptySpace
   \<and> minusSpace ctx (Suc (Suc n)) (DisjunctSpace [BoolSpace True, BoolSpace False])
         (TypeSpace (NominalTy ''Int''))
     = Inr (DisjunctSpace [BoolSpace True, BoolSpace False])"
  by (simp add: canDecompose_def isBool_def bindR_def isEmpty_def)

text \<open>
  Claim C3 (the code departs from it). For the head-only payload pattern \<open>.g(.h)\<close> against
  \<open>.g(.h(true))\<close> the subspace test answers \<open>true\<close>, yet the difference is the whole left
  space, which does not simplify to the empty space.
\<close>

theorem isSubspace_without_empty_difference:
  "isSubspace ctx (Suc (Suc n))
     (ConstructorSpace (EnumTy ''Outer'') ''g'' [ConstructorSpace (EnumTy ''Inner'') ''h'' []])
     (ConstructorSpace (EnumTy ''Outer'') ''g''
        [ConstructorSpace (EnumTy ''Inner'') ''h'' [BoolSpace True]])
     = Inr True
   \<and> minusSpace ctx (Suc (Suc n))
     (ConstructorSpace (EnumTy ''Outer'') ''g'' [ConstructorSpace (EnumTy ''Inner'') ''h'' []])
     (ConstructorSpace (EnumTy ''Outer'') ''g''
        [ConstructorSpace (EnumTy ''Inner'') ''h'' [BoolSpace True]])
     = Inr (ConstructorSpace (EnumTy ''Outer'') ''g''
              [ConstructorSpace (EnumTy ''Inner'') ''h'' []])
   \<and> simplify ctx
     (ConstructorSpace (EnumTy ''Outer'') ''g'' [ConstructorSpace (EnumTy ''Inner'') ''h'' []])
     \<noteq> EmptySpace"
  by (simp add: bindR_def isEmpty_def)

subsection \<open>Subtraction of constructor spaces\<close>

lemma minusParams_result:
  assumes "map (\<lambda>(x, y). fi x y) (zip xs ys) = map Inr inters"
    and "map (\<lambda>(x, y). fs x y) (zip xs ys) = map Inr subs"
    and "map (\<lambda>(x, y). fm x y) (zip xs ys) = map Inr diffs"
  shows "minusParams ctx fi fs fm T H SP idx foundBad constrSpaces xs ys =
     Inr (if list_ex (\<lambda>i. isEmpty (simplify ctx i)) inters then ConstructorSpace T H SP
          else if foundBad \<or> \<not> list_all (\<lambda>sub. sub) subs then
            examineDecomp (constrSpaces
              @ map (\<lambda>(i, d). ConstructorSpace T H (SP[i := d])) (enumerate idx diffs))
          else EmptySpace)"
  using assms
proof (induction xs arbitrary: ys inters subs diffs idx foundBad constrSpaces)
  case Nil
  then show ?case by simp
next
  case (Cons x xs)
  show ?case
  proof (cases ys)
    case Nil
    with Cons.prems show ?thesis by simp
  next
    case (Cons y ys')
    with Cons.prems obtain i inters' where i: "inters = i # inters'" "fi x y = Inr i"
      "map (\<lambda>(x, y). fi x y) (zip xs ys') = map Inr inters'"
      by (cases inters) auto
    from Cons Cons.prems obtain s subs' where s: "subs = s # subs'" "fs x y = Inr s"
      "map (\<lambda>(x, y). fs x y) (zip xs ys') = map Inr subs'"
      by (cases subs) auto
    from Cons Cons.prems obtain d diffs' where d: "diffs = d # diffs'" "fm x y = Inr d"
      "map (\<lambda>(x, y). fm x y) (zip xs ys') = map Inr diffs'"
      by (cases diffs) auto
    show ?thesis
    proof (cases "isEmpty (simplify ctx i)")
      case True
      with Cons i show ?thesis by (simp add: bindR_def)
    next
      case False
      have "minusParams ctx fi fs fm T H SP idx foundBad constrSpaces (x # xs) ys =
            minusParams ctx fi fs fm T H SP (Suc idx) (foundBad \<or> \<not> s)
              (constrSpaces @ [ConstructorSpace T H (SP[idx := d])]) xs ys'"
        using Cons i(2) s(2) d(2) False by (simp add: bindR_def)
      also note Cons.IH [OF i(3) s(3) d(3)]
      finally show ?thesis using False i(1) s(1) d(1) by auto
    qed
  qed
qed

text \<open>
  Claim C2 (as amended). Subtraction of two constructor spaces, given the results of the
  nested calls on the paired children (their intersections, subspace tests and
  differences): with different heads the left space comes back unchanged; with no children
  on the right the result is empty; if some paired intersection simplifies to empty the
  left space comes back unchanged; if every left child is a subspace of its partner the
  result is empty; otherwise the reconstructions (the left constructor with child \<open>i\<close>
  replaced by the \<open>i\<close>-th difference, one per pair) are combined by \<open>examineDecomp\<close>: a
  single reconstruction is returned as it is, two or more as their disjunct.
\<close>

theorem minus_Constructor_Constructor:
  "(h1 \<noteq> h2 \<longrightarrow>
      minusSpace ctx (Suc n) (ConstructorSpace T h1 a) (ConstructorSpace U h2 b)
        = Inr (ConstructorSpace T h1 a))
   \<and> (h1 = h2 \<and> b = [] \<longrightarrow>
      minusSpace ctx (Suc n) (ConstructorSpace T h1 a) (ConstructorSpace U h2 b)
        = Inr EmptySpace)
   \<and> (h1 = h2 \<and> b \<noteq> []
        \<and> map (\<lambda>(x, y). intersect ctx n x y) (zip a b) = map Inr inters
        \<and> map (\<lambda>(x, y). isSubspace ctx n x y) (zip a b) = map Inr subs
        \<and> map (\<lambda>(x, y). minusSpace ctx n x y) (zip a b) = map Inr diffs \<longrightarrow>
      minusSpace ctx (Suc n) (ConstructorSpace T h1 a) (ConstructorSpace U h2 b)
        = Inr (if list_ex (\<lambda>i. isEmpty (simplify ctx i)) inters then ConstructorSpace T h1 a
               else if list_all (\<lambda>sub. sub) subs then EmptySpace
               else examineDecomp
                      (map (\<lambda>(i, d). ConstructorSpace T h1 (a[i := d]))
                         (enumerate 0 diffs))))"
proof (intro conjI impI)
  assume "h1 \<noteq> h2"
  then show "minusSpace ctx (Suc n) (ConstructorSpace T h1 a) (ConstructorSpace U h2 b)
        = Inr (ConstructorSpace T h1 a)"
    by simp
next
  assume "h1 = h2 \<and> b = []"
  then show "minusSpace ctx (Suc n) (ConstructorSpace T h1 a) (ConstructorSpace U h2 b)
        = Inr EmptySpace"
    by simp
next
  assume asm: "h1 = h2 \<and> b \<noteq> []
        \<and> map (\<lambda>(x, y). intersect ctx n x y) (zip a b) = map Inr inters
        \<and> map (\<lambda>(x, y). isSubspace ctx n x y) (zip a b) = map Inr subs
        \<and> map (\<lambda>(x, y). minusSpace ctx n x y) (zip a b) = map Inr diffs"
  then have "minusSpace ctx (Suc n) (ConstructorSpace T h1 a) (ConstructorSpace U h2 b) =
      minusParams ctx (\<lambda>s1 s2. intersect ctx n s1 s2) (\<lambda>s1 s2. isSubspace ctx n s1 s2)
        (\<lambda>s1 s2. minusSpace ctx n s1 s2) T h1 a 0 False [] a b"
    by simp
  also have "\<dots> =
     Inr (if list_ex (\<lambda>i. isEmpty (simplify ctx i)) inters then ConstructorSpace T h1 a
          else if False \<or> \<not> list_all (\<lambda>sub. sub) subs then
            examineDecomp ([]
              @ map (\<lambda>(i, d). ConstructorSpace T h1 (a[i := d])) (enumerate 0 diffs))
          else EmptySpace)"
    using asm by (intro minusParams_result) simp_all
  finally show "minusSpace ctx (Suc n) (ConstructorSpace T h1 a) (ConstructorSpace U h2 b)
        = Inr (if list_ex (\<lambda>i. isEmpty (simplify ctx i)) inters then ConstructorSpace T h1 a
               else if list_all (\<lambda>sub. sub) subs then EmptySpace
               else examineDecomp
                      (map (\<lambda>(i, d). ConstructorSpace T h1 (a[i := d]))
                         (enumerate 0 diffs)))"
    by simp
qed

theorem minus_Constructor_Constructor_witness:
  "minusSpace exampleContext (Suc (Suc (Suc (Suc 0))))
     (ConstructorSpace (EnumTy ''E'') ''a'' []) (ConstructorSpace (EnumTy ''E'') ''b'' [])
   = Inr (ConstructorSpace (EnumTy ''E'') ''a'' [])
   \<and> minusSpace exampleContext (Suc (Suc (Suc (Suc 0))))
     (ConstructorSpace (EnumTy ''Maybe<Bool>'') ''some'' [TypeSpace BoolTy])
     (ConstructorSpace (EnumTy ''Maybe<Bool>'') ''some'' [])
   = Inr EmptySpace
   \<and> minusSpace exampleContext (Suc (Suc (Suc (Suc 0))))
     (ConstructorSpace (TupleTy [BoolTy, BoolTy]) [] [TypeSpace BoolTy, TypeSpace BoolTy])
     (ConstructorSpace (TupleTy [BoolTy, BoolTy]) [] [BoolSpace True, BoolSpace False])
   = Inr (DisjunctSpace
       [ConstructorSpace (TupleTy [BoolTy, BoolTy]) []
          [DisjunctSpace [EmptySpace, BoolSpace False], TypeSpace BoolTy],
        ConstructorSpace (TupleTy [BoolTy, BoolTy]) []
          [TypeSpace BoolTy, DisjunctSpace [BoolSpace True, EmptySpace]]])"
  using minus_Constructor_Constructor [of "''a''" "''b''" exampleContext "Suc (Suc (Suc 0))"
      "EnumTy ''E''" "[]" "EnumTy ''E''" "[]"]
    minus_Constructor_Constructor [of "''some''" "''some''" exampleContext "Suc (Suc (Suc 0))"
      "EnumTy ''Maybe<Bool>''" "[TypeSpace BoolTy]" "EnumTy ''Maybe<Bool>''" "[]"]
    minus_Constructor_Constructor [of "[]" "[]" exampleContext "Suc (Suc (Suc 0))"
      "TupleTy [BoolTy, BoolTy]" "[TypeSpace BoolTy, TypeSpace BoolTy]"
      "TupleTy [BoolTy, BoolTy]" "[BoolSpace True, BoolSpace False]"
      "[BoolSpace True, BoolSpace False]" "[False, False]"
      "[DisjunctSpace [EmptySpace, BoolSpace False], DisjunctSpace [BoolSpace True, EmptySpace]]"]
  by (simp add: canDecompose_def isBool_def bindR_def isEmpty_def)

text \<open>
  As the claim was stated (the result is always the disjunct of the reconstructions), it
  fails for one pair of children: \<open>.some(_) - .some(true)\<close> over \<open>Maybe<Bool>\<close> is the
  reconstruction itself, a constructor space, and not a disjunct with one member.
\<close>

theorem minus_Constructor_Constructor_single_counterexample:
  "intersect exampleContext (Suc (Suc (Suc 0))) (TypeSpace BoolTy) (BoolSpace True)
     = Inr (BoolSpace True)
   \<and> simplify exampleContext (BoolSpace True) \<noteq> EmptySpace
   \<and> isSubspace exampleContext (Suc (Suc (Suc 0))) (TypeSpace BoolTy) (BoolSpace True)
     = Inr False
   \<and> minusSpace exampleContext (Suc (Suc (Suc 0))) (TypeSpace BoolTy) (BoolSpace True)
     = Inr (DisjunctSpace [EmptySpace, BoolSpace False])
   \<and> minusSpace exampleContext (Suc (Suc (Suc (Suc 0))))
       (ConstructorSpace (EnumTy ''Maybe<Bool>'') ''some'' [TypeSpace BoolTy])
       (ConstructorSpace (EnumTy ''Maybe<Bool>'') ''some'' [BoolSpace True])
     = Inr (ConstructorSpace (EnumTy ''Maybe<Bool>'') ''some''
              [DisjunctSpace [EmptySpace, BoolSpace False]])
   \<and> minusSpace exampleContext (Suc (Suc (Suc (Suc 0))))
       (ConstructorSpace (EnumTy ''Maybe<Bool>'') ''some'' [TypeSpace BoolTy])
       (ConstructorSpace (EnumTy ''Maybe<Bool>'') ''some'' [BoolSpace True])
     \<noteq> Inr (DisjunctSpace
              [ConstructorSpace (EnumTy ''Maybe<Bool>'') ''some''
                 [DisjunctSpace [EmptySpace, BoolSpace False]]])"
  by (simp add: canDecompose_def isBool_def bindR_def isEmpty_def)


subsection \<open>Intersection with the subject type, and subtraction of the empty space\<close>

lemma transform_Inr:
  assumes "\<And>x. x \<in> set xs \<Longrightarrow> \<exists>r. f x = Inr r \<and> P x r"
  shows "\<exists>rs. transform f xs = Inr rs \<and> list_all2 P xs rs"
  using assms
proof (induction xs)
  case Nil
  show ?case by simp
next
  case (Cons x xs)
  from Cons.prems obtain r where r: "f x = Inr r" "P x r" by auto
  from Cons obtain rs where rs: "transform f xs = Inr rs" "list_all2 P xs rs" by auto
  show ?case using r rs by (simp add: bindR_def)
qed

lemma filter_simplify_filter:
  "filter (\<lambda>el. \<not> isEmpty el) (map (simplify ctx) (filter (\<lambda>el. \<not> isEmpty el) rs))
   = filter (\<lambda>el. \<not> isEmpty el) (map (simplify ctx) rs)"
  by (induction rs) (auto simp: isEmpty_iff)

lemma simplify_examineDecomp_filter:
  assumes "map (simplify ctx) rs = map (simplify ctx) xs"
  shows "simplify ctx (examineDecomp (filter (\<lambda>el. \<not> isEmpty el) rs))
         = simplify ctx (DisjunctSpace xs)"
proof -
  let ?ne = "\<lambda>el. \<not> isEmpty el"
  let ?ys = "filter ?ne rs"
  let ?cs = "filter ?ne (map (simplify ctx) xs)"
  have len: "length rs = length xs"
    using assms by (metis length_map)
  have cs: "filter ?ne (map (simplify ctx) ?ys) = ?cs"
    by (simp only: filter_simplify_filter assms)
  show ?thesis
  proof (cases "length xs = 1")
    case True
    then obtain x where x: "xs = [x]" by (cases xs) auto
    with len obtain r where r: "rs = [r]" by (cases rs) auto
    from assms x r have eq: "simplify ctx r = simplify ctx x" by simp
    show ?thesis
    proof (cases "isEmpty r")
      case True
      then have "r = EmptySpace" by (simp add: isEmpty_iff)
      with eq have "simplify ctx x = EmptySpace" by simp
      with True r x show ?thesis by (simp add: simplify_Disjunct_single)
    next
      case False
      with r x eq show ?thesis by (simp add: simplify_Disjunct_single)
    qed
  next
    case False
    then have rhs: "simplify ctx (DisjunctSpace xs) = examineDecomp ?cs"
      by (rule simplify_Disjunct_many)
    show ?thesis
    proof (cases ?ys rule: examineDecomp_cases)
      case 1
      with cs have "?cs = []" by simp
      with 1 rhs show ?thesis by simp
    next
      case (2 y)
      with cs have c: "?cs = filter ?ne [simplify ctx y]" by simp
      show ?thesis
      proof (cases "isEmpty (simplify ctx y)")
        case True
        with c have "?cs = []" by simp
        with True 2 rhs show ?thesis by (simp add: isEmpty_iff)
      next
        case False
        with c have "?cs = [simplify ctx y]" by simp
        with 2 rhs show ?thesis by simp
      qed
    next
      case 3
      have "simplify ctx (DisjunctSpace ?ys)
           = examineDecomp (filter ?ne (map (simplify ctx) ?ys))"
        using 3(1) by (rule simplify_Disjunct_many)
      with cs 3 rhs show ?thesis by simp
    qed
  qed
qed

lemma intersect_subject_type:
  "overType T s \<Longrightarrow> size s < n \<Longrightarrow>
   \<exists>r. intersect ctx n s (TypeSpace T) = Inr r \<and> simplify ctx r = simplify ctx s"
proof (induction s arbitrary: n)
  case EmptySpace
  then obtain k where "n = Suc k" by (cases n) auto
  then show ?case by simp
next
  case (TypeSpace U)
  then obtain k where "n = Suc k" by (cases n) auto
  with TypeSpace show ?case by simp
next
  case (ConstructorSpace U H SP)
  then obtain k where "n = Suc k" by (cases n) auto
  then show ?case by simp
next
  case (BoolSpace C)
  then obtain k where "n = Suc k" by (cases n) auto
  with BoolSpace show ?case by (simp add: isBool_def)
next
  case (DisjunctSpace SP)
  then obtain k where k: "n = Suc k" by (cases n) auto
  have "\<exists>r. intersect ctx k x (TypeSpace T) = Inr r \<and> simplify ctx r = simplify ctx x"
    if "x \<in> set SP" for x
  proof (rule DisjunctSpace.IH [OF that])
    show "overType T x" using DisjunctSpace.prems(1) that by (simp add: list_all_iff)
    have "size x \<le> size_list size SP" using that by (rule size_list_member)
    then show "size x < k" using DisjunctSpace.prems(2) k by simp
  qed
  then obtain rs where rs: "transform (\<lambda>s. intersect ctx k s (TypeSpace T)) SP = Inr rs"
    "list_all2 (\<lambda>x r. simplify ctx r = simplify ctx x) SP rs"
    using transform_Inr [of SP "\<lambda>s. intersect ctx k s (TypeSpace T)"
        "\<lambda>x r. simplify ctx r = simplify ctx x"] by blast
  from rs(2) have "map (simplify ctx) rs = map (simplify ctx) SP"
    by (induction rule: list_all2_induct) simp_all
  then have "simplify ctx (examineDecomp (filter (\<lambda>el. \<not> isEmpty el) rs))
         = simplify ctx (DisjunctSpace SP)"
    by (rule simplify_examineDecomp_filter)
  with rs(1) k show ?case by (simp add: bindR_def)
qed

lemma minus_EmptySpace_right: "minusSpace ctx (Suc m) s EmptySpace = Inr s"
  by (cases s) simp_all

text \<open>
  Claim C6. Identity laws. For a space \<open>s\<close> over the subject type \<open>T\<close>, intersecting with
  \<open>Type(T)\<close> returns (given fuel beyond the size of \<open>s\<close>) a space that simplifies to what \<open>s\<close>
  simplifies to; subtracting the empty space returns \<open>s\<close> itself; and subtracting anything
  from the empty space returns the empty space.
\<close>

theorem identity_laws:
  "(overType T s \<and> size s < n \<longrightarrow>
      (\<exists>r. intersect ctx n s (TypeSpace T) = Inr r \<and> simplify ctx r = simplify ctx s))
   \<and> minusSpace ctx (Suc m) s EmptySpace = Inr s
   \<and> minusSpace ctx (Suc m) EmptySpace s = Inr EmptySpace"
  using intersect_subject_type [of T s n ctx] minus_EmptySpace_right [of ctx m s] by simp

theorem identity_laws_witness:
  "(\<exists>r. intersect exampleContext 10
           (DisjunctSpace [ConstructorSpace (EnumTy ''E'') ''a'' [], EmptySpace,
              DisjunctSpace [TypeSpace (EnumTy ''E'')]])
           (TypeSpace (EnumTy ''E'')) = Inr r
        \<and> simplify exampleContext r
          = simplify exampleContext
              (DisjunctSpace [ConstructorSpace (EnumTy ''E'') ''a'' [], EmptySpace,
                 DisjunctSpace [TypeSpace (EnumTy ''E'')]]))
   \<and> minusSpace exampleContext (Suc 0)
        (DisjunctSpace [ConstructorSpace (EnumTy ''E'') ''a'' [], EmptySpace,
           DisjunctSpace [TypeSpace (EnumTy ''E'')]]) EmptySpace
      = Inr (DisjunctSpace [ConstructorSpace (EnumTy ''E'') ''a'' [], EmptySpace,
           DisjunctSpace [TypeSpace (EnumTy ''E'')]])
   \<and> minusSpace exampleContext (Suc 0) EmptySpace
        (DisjunctSpace [ConstructorSpace (EnumTy ''E'') ''a'' [], EmptySpace,
           DisjunctSpace [TypeSpace (EnumTy ''E'')]])
      = Inr EmptySpace"
  using identity_laws [of "EnumTy ''E''"
      "DisjunctSpace [ConstructorSpace (EnumTy ''E'') ''a'' [], EmptySpace,
         DisjunctSpace [TypeSpace (EnumTy ''E'')]]" 10 exampleContext 0]
  by simp

section \<open>Properties of flattening\<close>

lemma childFilter:
  "getKind param \<noteq> Constructor \<or> getKind param \<noteq> Disjunct
     \<or> getKind param \<noteq> BooleanConstant"
  by (cases param) simp_all

lemma flattenParams_skips: "flattenParams SP i flats = Inr flats"
proof (induction SP)
  case Nil
  show ?case by simp
next
  case (Cons param SP)
  have "flattenParams (param # SP) i flats = flattenParams SP i flats"
    using childFilter [of param] by (simp only: flattenParams.simps if_True)
  with Cons show ?case by simp
qed

text \<open>
  Claim C4. The child filter of \<open>flatten\<close> on a constructor holds of every child, so the
  parameter loop skips every child and leaves the list of flattened spaces as it found it:
  the constructor case contributes no entry.
\<close>

theorem flatten_Constructor_skips_every_child:
  "(getKind param \<noteq> Constructor \<or> getKind param \<noteq> Disjunct
      \<or> getKind param \<noteq> BooleanConstant)
   \<and> flattenParams SP i flats = Inr flats
   \<and> flatten (ConstructorSpace T H SP) flats = Inr flats"
  using childFilter [of param] flattenParams_skips by simp

theorem flatten_Constructor_skips_every_child_witness:
  "flatten (ConstructorSpace (TupleTy [BoolTy, BoolTy]) []
      [DisjunctSpace [BoolSpace True, BoolSpace False], BoolSpace True]) [] = Inr []"
  using flatten_Constructor_skips_every_child
    [of "BoolSpace True" "[DisjunctSpace [BoolSpace True, BoolSpace False], BoolSpace True]" 0 "[]"
        "TupleTy [BoolTy, BoolTy]" "[]"]
  by simp

section \<open>Properties of the exhaustiveness check\<close>

text \<open>
  Claim C8. With limited checking, a switch without cases gets the empty-switch diagnostic
  (with the fix-it that inserts a default clause) and nothing else; a switch with at least
  one case gets no diagnostic. No fuel is needed.
\<close>

theorem checkExhaustiveness_limited:
  "checkExhaustiveness ctx fuel Switch True =
     Inr (if Cases Switch = []
          then [\<lparr>Loc = StartLoc Switch, ID = empty_switch_stmt,
                 fixItInsert = Some (EndLoc Switch,
                   kw_default ctx @ '': '' @ CodePlaceholder ctx @ [CHR 0x0A])\<rparr>]
          else [])"
  by (simp add: checkExhaustiveness_def diagnoseMissingCases_def)

lemma caseLabelItemsLoop_eq:
  "caseLabelItemsLoop caseItems spaces =
     (if list_ex (\<lambda>caseItem. GuardExpr caseItem = None \<and> isDefault caseItem) caseItems then None
      else Some (spaces @ map (\<lambda>caseItem. projectPattern (CasePattern caseItem))
                   (filter (\<lambda>caseItem. GuardExpr caseItem = None) caseItems)))"
  by (induction caseItems arbitrary: spaces) (simp_all add: Let_def)

lemma casesLoop_eq:
  "casesLoop caseBlocks spaces =
     (if list_ex (\<lambda>caseItem. GuardExpr caseItem = None \<and> isDefault caseItem) (concat caseBlocks)
      then None
      else Some (spaces @ map (\<lambda>caseItem. projectPattern (CasePattern caseItem))
                   (filter (\<lambda>caseItem. GuardExpr caseItem = None) (concat caseBlocks))))"
  by (induction caseBlocks arbitrary: spaces) (simp_all add: caseLabelItemsLoop_eq)

text \<open>
  Claim C5. In normal mode the case spaces are the projections of the items without a
  guard, in source order (a guarded item contributes nothing), unless some item without a
  guard is a default: then the collection returns and the check emits no diagnostic.
\<close>

theorem checkExhaustiveness_guards_and_default:
  "casesLoop (Cases Switch) [] =
     (if list_ex (\<lambda>caseItem. GuardExpr caseItem = None \<and> isDefault caseItem)
           (concat (Cases Switch))
      then None
      else Some (map (\<lambda>caseItem. projectPattern (CasePattern caseItem))
                   (filter (\<lambda>caseItem. GuardExpr caseItem = None) (concat (Cases Switch)))))
   \<and> (list_ex (\<lambda>caseItem. GuardExpr caseItem = None \<and> isDefault caseItem)
           (concat (Cases Switch))
        \<longrightarrow> checkExhaustiveness ctx fuel Switch False = Inr [])"
  by (simp add: casesLoop_eq checkExhaustiveness_def)

theorem checkExhaustiveness_guards_and_default_witness:
  "list_ex (\<lambda>caseItem. GuardExpr caseItem = None \<and> isDefault caseItem)
     (concat (Cases exampleSwitch))
   \<and> casesLoop (Cases exampleSwitch) [] = None
   \<and> checkExhaustiveness exampleContext 0 exampleSwitch False = Inr []"
  using checkExhaustiveness_guards_and_default [of exampleSwitch exampleContext 0]
  by (simp add: exampleSwitch_def)


end
